theory Spec2Isabelle
  imports Main "HOL-Library.Word"
begin

unbundle bit_operations_syntax

section \<open>Machine types of \<^verbatim>\<open>auroravfs.c\<close>\<close>

text \<open>
  The file is compiled for a 64-bit target: \<^verbatim>\<open>int\<close> has 32 bits,
  \<^verbatim>\<open>sqlite3_int64\<close> is a signed and \<^verbatim>\<open>size_t\<close>,
  \<^verbatim>\<open>sqlite_uint64\<close> an unsigned 64-bit integer, and a pointer has 64 bits.
  A word carries no sign: the signed comparisons of the source are \<open><s\<close> and
  \<open>\<le>s\<close>, the unsigned ones \<open><\<close> and \<open>\<le>\<close>, and a widening of an
  \<^verbatim>\<open>int\<close> is the sign extension \<open>scast\<close>.
\<close>

type_synonym c_int = "32 word"
type_synonym i64 = "64 word"
type_synonym u64 = "64 word"
type_synonym byte = "8 word"
type_synonym addr = "64 word"

subsection \<open>Constants of \<^verbatim>\<open>sqlite3.h\<close>\<close>

text \<open>
  Modelled from the spec: the status codes and flags below are declared in SQLite's
  \<^verbatim>\<open>sqlite3.h\<close>, which is not among the sources; the spec calls them Success, Internal,
  NotFound, Full, CantOpen and SnapshotError. The numbers are those of the SQLite headers.
\<close>

definition SQLITE_OK :: c_int where "SQLITE_OK = 0"
definition SQLITE_INTERNAL :: c_int where "SQLITE_INTERNAL = 2"
definition SQLITE_BUSY :: c_int where "SQLITE_BUSY = 5"
definition SQLITE_NOTFOUND :: c_int where "SQLITE_NOTFOUND = 12"
definition SQLITE_FULL :: c_int where "SQLITE_FULL = 13"
definition SQLITE_CANTOPEN :: c_int where "SQLITE_CANTOPEN = 14"
definition SQLITE_ERROR_SNAPSHOT :: c_int where "SQLITE_ERROR_SNAPSHOT = 769"
definition SQLITE_OPEN_MAIN_DB :: c_int where "SQLITE_OPEN_MAIN_DB = 256"
definition SQLITE_FCNTL_VFSNAME :: c_int where "SQLITE_FCNTL_VFSNAME = 12"

section \<open>Memory\<close>

text \<open>
  The buffer \<^verbatim>\<open>aData\<close> is not owned by the handle: it is a region of the process's
  memory. Memory is a store from addresses to bytes, and pointer arithmetic is addition
  on 64-bit words.
\<close>

type_synonym memory = "addr \<Rightarrow> byte"

primrec store_bytes :: "memory \<Rightarrow> addr \<Rightarrow> byte list \<Rightarrow> memory" where
  "store_bytes m a [] = m"
| "store_bytes m a (b # bs) = store_bytes (m(a := b)) (a + 1) bs"

text \<open>
  \<^verbatim>\<open>memcpy(dst, src, n)\<close> from a caller's buffer, given as the list of its bytes. C
  reads exactly \<open>n\<close> bytes of it; reading past the end of the source is undefined there,
  and the model stores the bytes the source has.
\<close>

definition memcpy :: "memory \<Rightarrow> addr \<Rightarrow> byte list \<Rightarrow> u64 \<Rightarrow> memory" where
  "memcpy m dst src n = store_bytes m dst (take (unat n) src)"

definition memset :: "memory \<Rightarrow> addr \<Rightarrow> byte \<Rightarrow> u64 \<Rightarrow> memory" where
  "memset m dst c n = store_bytes m dst (replicate (unat n) c)"

primrec load_bytes :: "memory \<Rightarrow> addr \<Rightarrow> nat \<Rightarrow> byte list" where
  "load_bytes m a 0 = []"
| "load_bytes m a (Suc n) = m a # load_bytes m (a + 1) n"

section \<open>External collaborators\<close>

text \<open>
  The checkpoint facility (\<^verbatim>\<open>sas_trace_start\<close>, \<^verbatim>\<open>sas_trace_commit\<close> of
  \<^verbatim>\<open>sls_wal.h\<close>), the wrapped default provider (\<^verbatim>\<open>ORIGVFS(pVfs)\<close>) and the
  delegate handle (\<^verbatim>\<open>p->pReal\<close>, the storage that follows the handle) are outside the
  file. Every call the file makes to them is appended to a log, and what the callee
  answers is given by an environment that sees the log so far and the call.
\<close>

datatype call =
    SasTraceStart c_int
  | SasTraceCommit c_int
  | OrigOpen string c_int
  | OrigAccess string c_int
  | RealClose
  | RealRead c_int i64
  | RealWrite "byte list" c_int i64
  | RealTruncate i64
  | RealSync c_int
  | RealFileSize
  | RealLock c_int
  | RealUnlock c_int
  | RealFileControl c_int
  | RealFetch i64 c_int

text \<open>
  A callee's answer: the \<^verbatim>\<open>int\<close> it returns, the value it stores through its output
  pointer (when it has one; an \<^verbatim>\<open>int\<close> output is held in the low 32 bits) and the
  bytes it stores into the caller's buffer (\<^verbatim>\<open>xRead\<close>).
\<close>

record reply =
  rc :: c_int
  out :: i64
  bytes :: "byte list"

type_synonym env = "call list \<Rightarrow> call \<Rightarrow> reply"

text \<open>
  The process state next to the handle: memory, the global \<^verbatim>\<open>mainDbName\<close>
  (\<open>None\<close> is \<^verbatim>\<open>NULL\<close>) and the log of external calls.
\<close>

record world =
  mem :: memory
  mainDbName :: "string option"
  calls :: "call list"

definition ext_call :: "env \<Rightarrow> call \<Rightarrow> world \<Rightarrow> reply \<times> world" where
  "ext_call env c w = (env (calls w) c, w\<lparr>calls := calls w @ [c]\<rparr>)"

section \<open>The file handle\<close>

text \<open>
  \<^verbatim>\<open>struct AuroraFile\<close>. \<open>pMethods\<close> says whether \<^verbatim>\<open>base.pMethods\<close> points to
  \<^verbatim>\<open>aurora_io_methods\<close>; \<open>fileName\<close> is \<open>None\<close> for \<^verbatim>\<open>NULL\<close>. The field
  \<^verbatim>\<open>pReal\<close> always points just behind the handle and is not a field of the model.
\<close>

record AuroraFile =
  pMethods :: bool
  sz :: i64
  szMax :: i64
  aData :: addr
  isAurMmap :: c_int
  fileName :: "string option"
  szWritten :: i64
  szThreshold :: u64
  bCkptOnSync :: bool
  fd :: c_int

section \<open>Methods of the handle\<close>

definition auroraClose :: "env \<Rightarrow> AuroraFile \<Rightarrow> world \<Rightarrow> c_int \<times> world" where
  "auroraClose env p w =
     (if isAurMmap p = 0 then
        (let (r, w1) = ext_call env RealClose w in (rc r, w1))
      else (SQLITE_OK, w))"

text \<open>The bytes stored into \<^verbatim>\<open>zBuf\<close> are returned.\<close>

definition auroraRead ::
  "env \<Rightarrow> AuroraFile \<Rightarrow> c_int \<Rightarrow> i64 \<Rightarrow> world \<Rightarrow> c_int \<times> byte list \<times> world" where
  "auroraRead env p iAmt iOfst w =
     (if isAurMmap p = 0 then
        (let (r, w1) = ext_call env (RealRead iAmt iOfst) w in (rc r, bytes r, w1))
      else
        (SQLITE_OK, load_bytes (mem w) (aData p + iOfst) (unat (scast iAmt :: u64)), w))"

text \<open>
  \<^verbatim>\<open>szEnd\<close> is a \<^verbatim>\<open>size_t\<close>, so both comparisons with it are unsigned, and so is
  the comparison of \<^verbatim>\<open>szWritten\<close> with the unsigned \<^verbatim>\<open>szThreshold\<close>. The sum
  \<^verbatim>\<open>iOfst + iAmt\<close> is taken modulo \<open>2 ^ 64\<close>.
\<close>

definition auroraWrite ::
  "env \<Rightarrow> AuroraFile \<Rightarrow> byte list \<Rightarrow> c_int \<Rightarrow> i64 \<Rightarrow> world \<Rightarrow> c_int \<times> AuroraFile \<times> world" where
  "auroraWrite env p z iAmt iOfst w =
     (let szEnd = iOfst + scast iAmt in
      if isAurMmap p = 0 then
        (let (r, w1) = ext_call env (RealWrite z iAmt iOfst) w in (rc r, p, w1))
      else if szMax p < szEnd then (SQLITE_FULL, p, w)
      else
        (let p1 = p\<lparr>sz := (if sz p < szEnd then szEnd else sz p)\<rparr>;
             w1 = w\<lparr>mem := memcpy (mem w) (aData p + iOfst) z (scast iAmt)\<rparr>;
             p2 = p1\<lparr>szWritten := szWritten p1 + scast iAmt\<rparr>
         in
           if szThreshold p2 = 0 then (SQLITE_OK, p2, w1)
           else if szThreshold p2 < szWritten p2 then
             (let (r, w2) = ext_call env (SasTraceCommit (fd p2)) w1 in
                if rc r <s 0 then (SQLITE_ERROR_SNAPSHOT, p2, w2)
                else (SQLITE_OK, p2\<lparr>szWritten := 0\<rparr>, w2))
           else (SQLITE_OK, p2, w1)))"

definition auroraTruncate ::
  "env \<Rightarrow> AuroraFile \<Rightarrow> i64 \<Rightarrow> world \<Rightarrow> c_int \<times> AuroraFile \<times> world" where
  "auroraTruncate env p size' w =
     (if isAurMmap p = 0 then
        (let (r, w1) = ext_call env (RealTruncate size') w in (rc r, p, w1))
      else if sz p <s size' then
        (if szMax p <s size' then (SQLITE_FULL, p, w)
         else
           (SQLITE_OK, p\<lparr>sz := size'\<rparr>,
            w\<lparr>mem := memset (mem w) (aData p + sz p) 0 (size' - sz p)\<rparr>))
      else (SQLITE_OK, p\<lparr>sz := size'\<rparr>, w))"

definition auroraSync ::
  "env \<Rightarrow> AuroraFile \<Rightarrow> c_int \<Rightarrow> world \<Rightarrow> c_int \<times> AuroraFile \<times> world" where
  "auroraSync env p flags w =
     (if isAurMmap p = 0 then
        (let (r, w1) = ext_call env (RealSync flags) w in (rc r, p, w1))
      else if \<not> bCkptOnSync p \<or> szWritten p = 0 then (SQLITE_OK, p, w)
      else
        (let (r, w1) = ext_call env (SasTraceCommit (fd p)) w in
           if rc r <s 0 then (SQLITE_ERROR_SNAPSHOT, p, w1)
           else (SQLITE_OK, p\<lparr>szWritten := 0\<rparr>, w1)))"

text \<open>The value stored into \<^verbatim>\<open>*pSize\<close> is returned.\<close>

definition auroraFileSize :: "env \<Rightarrow> AuroraFile \<Rightarrow> world \<Rightarrow> c_int \<times> i64 \<times> world" where
  "auroraFileSize env p w =
     (if isAurMmap p = 0 then
        (let (r, w1) = ext_call env RealFileSize w in (rc r, out r, w1))
      else (SQLITE_OK, sz p, w))"

definition auroraLock :: "env \<Rightarrow> AuroraFile \<Rightarrow> c_int \<Rightarrow> world \<Rightarrow> c_int \<times> world" where
  "auroraLock env p eLock w =
     (if isAurMmap p = 0 then
        (let (r, w1) = ext_call env (RealLock eLock) w in (SQLITE_OK, w1))
      else (SQLITE_OK, w))"

definition auroraUnlock :: "env \<Rightarrow> AuroraFile \<Rightarrow> c_int \<Rightarrow> world \<Rightarrow> c_int \<times> world" where
  "auroraUnlock env p eLock w =
     (if isAurMmap p = 0 then
        (let (r, w1) = ext_call env (RealUnlock eLock) w in (SQLITE_OK, w1))
      else (SQLITE_OK, w))"

text \<open>
  The descriptor \<^verbatim>\<open>"aurora(%p,%lld)"\<close> is returned as the two values it prints;
  \<open>None\<close> when the method stores nothing itself.
\<close>

definition auroraFileControl ::
  "env \<Rightarrow> AuroraFile \<Rightarrow> c_int \<Rightarrow> world \<Rightarrow> c_int \<times> (addr \<times> i64) option \<times> world" where
  "auroraFileControl env p op w =
     (if isAurMmap p = 0 then
        (let (r, w1) = ext_call env (RealFileControl op) w in (rc r, None, w1))
      else if op = SQLITE_FCNTL_VFSNAME then (SQLITE_OK, Some (aData p, sz p), w)
      else (SQLITE_NOTFOUND, None, w))"

text \<open>The pointer stored into \<^verbatim>\<open>*pp\<close> is returned.\<close>

definition auroraFetch ::
  "env \<Rightarrow> AuroraFile \<Rightarrow> i64 \<Rightarrow> c_int \<Rightarrow> world \<Rightarrow> c_int \<times> addr \<times> world" where
  "auroraFetch env p iOfst iAmt w =
     (if isAurMmap p \<noteq> 0 then (SQLITE_OK, aData p + iOfst, w)
      else
        (let (r, w1) = ext_call env (RealFetch iOfst iAmt) w in (rc r, out r, w1)))"

section \<open>Opening a file and the access query\<close>

text \<open>
  Modelled from the spec: \<^verbatim>\<open>sqlite3_uri_int64\<close> belongs to SQLite and is not among the
  sources. The name given to \<^verbatim>\<open>xOpen\<close> is a path followed by the URI query parameters;
  \<^verbatim>\<open>sqlite3_uri_int64(zName, key, dflt)\<close> is the value of the first parameter \<open>key\<close>
  (decimal or hexadecimal) as a 64-bit integer, and \<open>dflt\<close> when the key is absent or its
  value is no integer. A name is its path, which \<^verbatim>\<open>strlen\<close>, \<^verbatim>\<open>strcpy\<close> and
  \<^verbatim>\<open>strcmp\<close> see, and its integer-valued parameters.
\<close>

record filename =
  zPath :: string
  zQuery :: "(string \<times> i64) list"

definition sqlite3_uri_int64 :: "filename \<Rightarrow> string \<Rightarrow> i64 \<Rightarrow> i64" where
  "sqlite3_uri_int64 zName zParam bDflt =
     (case map_of (zQuery zName) zParam of None \<Rightarrow> bDflt | Some v \<Rightarrow> v)"

text \<open>The handle after \<^verbatim>\<open>memset(p, 0, sizeof(*p))\<close>.\<close>

definition zero_file :: AuroraFile where
  "zero_file =
     \<lparr>pMethods = False, sz = 0, szMax = 0, aData = 0, isAurMmap = 0, fileName = None,
      szWritten = 0, szThreshold = 0, bCkptOnSync = False, fd = 0\<rparr>"

text \<open>
  The end of \<^verbatim>\<open>auroraOpen\<close>, common to both branches: the name is copied into the
  handle, and the methods are installed when the delegate's open returned 0.
  \<^verbatim>\<open>sqlite3_malloc(strlen(zName))\<close> leaves no room for the terminator; the model
  takes the copy to hold the name.
\<close>

definition open_finish ::
  "filename \<Rightarrow> c_int \<Rightarrow> AuroraFile \<Rightarrow> world \<Rightarrow> c_int \<times> AuroraFile \<times> world" where
  "open_finish zName r p w =
     (let p1 = p\<lparr>fileName := Some (zPath zName)\<rparr> in
      (r, if r = 0 then p1\<lparr>pMethods := True\<rparr> else p1, w))"

text \<open>
  The delegate writes \<^verbatim>\<open>*pOutFlags\<close> itself. The capacity is read from the key
  \<^verbatim>\<open>"max"\<close>, and \<^verbatim>\<open>fd\<close> is an \<^verbatim>\<open>int\<close>: the 64-bit parameter is cut to its low 32
  bits.
\<close>

definition auroraOpen ::
  "env \<Rightarrow> filename \<Rightarrow> c_int \<Rightarrow> world \<Rightarrow> c_int \<times> AuroraFile \<times> world" where
  "auroraOpen env zName flags w =
     (let p0 = zero_file\<lparr>isAurMmap := flags AND SQLITE_OPEN_MAIN_DB\<rparr> in
      if isAurMmap p0 \<noteq> 0 then
        (let p1 = p0\<lparr>aData := sqlite3_uri_int64 zName ''ptr'' 0\<rparr> in
         if aData p1 = 0 then (SQLITE_CANTOPEN, p1, w)
         else
           (let p2 = p1\<lparr>sz := sqlite3_uri_int64 zName ''sz'' (- 1)\<rparr> in
            if sz p2 <s 0 then (SQLITE_CANTOPEN, p2, w)
            else
              (let p3 = p2\<lparr>szMax := sqlite3_uri_int64 zName ''max'' (sz p2)\<rparr> in
               if szMax p3 <s sz p3 then (SQLITE_CANTOPEN, p3, w)
               else
                 (let p4 = p3\<lparr>fd := ucast (sqlite3_uri_int64 zName ''fd'' 0)\<rparr> in
                  if fd p4 = 0 then (SQLITE_CANTOPEN, p4, w)
                  else
                    (let (r, w1) = ext_call env (SasTraceStart (fd p4)) w in
                     if rc r \<noteq> 0 then (SQLITE_INTERNAL, p4, w1)
                     else
                       (let p5 = p4\<lparr>szThreshold := sqlite3_uri_int64 zName ''threshold'' 0\<rparr>;
                            p6 = p5\<lparr>bCkptOnSync :=
                                   0 <s sqlite3_uri_int64 zName ''ckptOnSync'' 1\<rparr>;
                            w2 = w1\<lparr>mainDbName := Some (zPath zName)\<rparr>;
                            (r2, w3) = ext_call env (OrigOpen (zPath zName) flags) w2
                        in open_finish zName (rc r2) p6 w3))))))
      else
        (let (r, w1) = ext_call env (OrigOpen (zPath zName) flags) w in
         open_finish zName (rc r) p0 w1))"

text \<open>The value stored into \<^verbatim>\<open>*pResOut\<close> is returned next to the status.\<close>

definition auroraAccess ::
  "env \<Rightarrow> string \<Rightarrow> c_int \<Rightarrow> world \<Rightarrow> c_int \<times> c_int \<times> world" where
  "auroraAccess env zPath' flags w =
     (if mainDbName w \<noteq> None \<and> Some zPath' = mainDbName w then (SQLITE_OK, 1, w)
      else
        (let (r, w1) = ext_call env (OrigAccess zPath' flags) w in
         (rc r, ucast (out r), w1)))"

section \<open>Sample inputs\<close>

text \<open>An environment where every external call returns 0 and stores nothing.\<close>

definition env_ok :: env where
  "env_ok log c = \<lparr>rc = 0, out = 0, bytes = []\<rparr>"

text \<open>An environment where the checkpoint commit fails with \<open>-1\<close>.\<close>

definition env_commit_fails :: env where
  "env_commit_fails log c =
     (case c of
        SasTraceCommit f \<Rightarrow> \<lparr>rc = - 1, out = 0, bytes = []\<rparr>
      | _ \<Rightarrow> \<lparr>rc = 0, out = 0, bytes = []\<rparr>)"

text \<open>
  An environment of a conventional provider under contention: the delegate's lock and
  unlock return \<^verbatim>\<open>SQLITE_BUSY\<close>, its open returns \<^verbatim>\<open>SQLITE_CANTOPEN\<close>, and its
  access query answers "absent".
\<close>

definition env_refusing :: env where
  "env_refusing log c =
     (case c of
        RealLock e \<Rightarrow> \<lparr>rc = SQLITE_BUSY, out = 0, bytes = []\<rparr>
      | RealUnlock e \<Rightarrow> \<lparr>rc = SQLITE_BUSY, out = 0, bytes = []\<rparr>
      | OrigOpen n f \<Rightarrow> \<lparr>rc = SQLITE_CANTOPEN, out = 0, bytes = []\<rparr>
      | _ \<Rightarrow> \<lparr>rc = 0, out = 0, bytes = []\<rparr>)"

definition world0 :: world where
  "world0 = \<lparr>mem = (\<lambda>a. 0), mainDbName = None, calls = []\<rparr>"

text \<open>The scenario of the spec: a buffer at \<open>0x1000\<close> of size 100 in 1000 bytes.\<close>

definition name0 :: filename where
  "name0 =
     \<lparr>zPath = ''/whatever'',
      zQuery = [(''ptr'', 4096), (''sz'', 100), (''max'', 1000), (''fd'', 7),
                (''threshold'', 50)]\<rparr>"

definition file0 :: AuroraFile where
  "file0 =
     \<lparr>pMethods = True, sz = 100, szMax = 1000, aData = 4096, isAurMmap = 256,
      fileName = Some ''/whatever'', szWritten = 0, szThreshold = 50, bCkptOnSync = True,
      fd = 7\<rparr>"

text \<open>
  The name of the usage note at the head of the source, with the capacity given under
  the key \<^verbatim>\<open>maxsz\<close> of the parameter list there.
\<close>

definition name_maxsz :: filename where
  "name_maxsz =
     \<lparr>zPath = ''/whatever'',
      zQuery = [(''ptr'', 15750456), (''sz'', 14336), (''maxsz'', 65536), (''fd'', 7)]\<rparr>"

text \<open>A handle of a journal file: every method goes to the delegate.\<close>

definition file_delegated :: AuroraFile where
  "file_delegated = zero_file\<lparr>pMethods := True, fileName := Some ''/whatever-journal''\<rparr>"

section \<open>Memory lemmas\<close>

lemma store_bytes_other:
  "(\<And>j. j < length bs \<Longrightarrow> x \<noteq> a + of_nat j) \<Longrightarrow> store_bytes m a bs x = m x"
proof (induction bs arbitrary: m a)
  case Nil
  then show ?case by simp
next
  case (Cons b bs)
  have "store_bytes (m(a := b)) (a + 1) bs x = (m(a := b)) x"
  proof (rule Cons.IH)
    fix j assume "j < length bs"
    then have "x \<noteq> a + of_nat (Suc j)" using Cons.prems [of "Suc j"] by simp
    then show "x \<noteq> a + 1 + of_nat j" by (simp add: add.assoc)
  qed
  moreover have "x \<noteq> a" using Cons.prems [of 0] by simp
  ultimately show ?case by simp
qed

lemma store_bytes_nth:
  "length bs \<le> 2 ^ 64 \<Longrightarrow> i < length bs \<Longrightarrow> store_bytes m a bs (a + of_nat i) = bs ! i"
proof (induction bs arbitrary: m a i)
  case Nil
  then show ?case by simp
next
  case (Cons b bs)
  show ?case
  proof (cases i)
    case 0
    have "store_bytes (m(a := b)) (a + 1) bs a = (m(a := b)) a"
    proof (rule store_bytes_other)
      fix j assume j: "j < length bs"
      then have "Suc j < 2 ^ 64" using Cons.prems(1) by simp
      then have "(of_nat (Suc j) :: 64 word) \<noteq> 0"
        by (simp add: of_nat_neq_0 del: of_nat_Suc)
      then show "a \<noteq> a + 1 + of_nat j" by (simp add: add.assoc)
    qed
    with 0 show ?thesis by simp
  next
    case (Suc k)
    have "store_bytes (m(a := b)) (a + 1) bs (a + 1 + of_nat k) = bs ! k"
      using Cons.prems Suc by (intro Cons.IH) simp_all
    with Suc show ?thesis by (simp add: add.assoc)
  qed
qed

section \<open>Reading words as integers\<close>

lemma sint_int_bounds: "- (2 ^ 31) \<le> sint (x :: 32 word) \<and> sint x < 2 ^ 31"
  using sint_ge [of x] sint_lt [of x] by simp

lemma sint_i64_bounds: "- (2 ^ 63) \<le> sint (x :: 64 word) \<and> sint x < 2 ^ 63"
  using sint_ge [of x] sint_lt [of x] by simp

lemma uint_nonneg: "0 \<le>s (x :: 64 word) \<Longrightarrow> uint x = sint x"
proof -
  assume "0 \<le>s x"
  then have 0: "0 \<le> sint x" by (simp add: word_sle_eq)
  have 1: "sint x < 2 ^ 63" using sint_lt [of x] by simp
  have "uint x = take_bit 64 (sint x)" using uint_sint [of x] by simp
  also have "\<dots> = sint x" using 0 1 by (simp add: take_bit_int_eq_self)
  finally show ?thesis .
qed

lemma sint_small: "uint (x :: 64 word) < 2 ^ 63 \<Longrightarrow> sint x = uint x"
proof -
  assume "uint x < 2 ^ 63"
  moreover have "- (2 ^ 63) \<le> uint x"
    by (rule order_trans [of _ 0]) simp_all
  ultimately have "signed_take_bit 63 (uint x) = uint x"
    by (intro signed_take_bit_int_eq_self)
  then show ?thesis by (simp add: sint_uint)
qed

lemma sint_scast_int: "sint (scast (x :: 32 word) :: 64 word) = sint x"
  by (simp add: sint_up_scast is_up)

lemma uint_scast_nonneg: "0 \<le>s (x :: 32 word) \<Longrightarrow> uint (scast x :: 64 word) = sint x"
proof -
  assume "0 \<le>s x"
  then have "0 \<le> sint (scast x :: 64 word)" by (simp add: word_sle_eq sint_scast_int)
  then have "0 \<le>s (scast x :: 64 word)" by (simp add: word_sle_eq)
  then show ?thesis using uint_nonneg [of "scast x"] by (simp add: sint_scast_int)
qed

lemma unat_scast_nonneg: "0 \<le>s (x :: 32 word) \<Longrightarrow> unat (scast x :: 64 word) = nat (sint x)"
  by (simp add: unat_eq_nat_uint uint_scast_nonneg)

lemma uint_szEnd:
  assumes "0 \<le>s (iOfst :: 64 word)" "0 \<le>s (iAmt :: 32 word)"
  shows "uint (iOfst + scast iAmt) = sint iOfst + sint iAmt"
proof -
  have a: "uint iOfst = sint iOfst" using assms(1) by (rule uint_nonneg)
  have b: "uint (scast iAmt :: 64 word) = sint iAmt" using assms(2) by (rule uint_scast_nonneg)
  have "sint iOfst + sint iAmt < 2 ^ 64"
    using sint_i64_bounds [of iOfst] sint_int_bounds [of iAmt] by simp
  then have "uint iOfst + uint (scast iAmt :: 64 word) < 2 ^ LENGTH(64)" using a b by simp
  then have "uint (iOfst + scast iAmt) = uint iOfst + uint (scast iAmt :: 64 word)"
    by (simp only: uint_add_lem)
  then show ?thesis using a b by simp
qed

section \<open>Writing\<close>

lemma ult_szEnd:
  assumes "0 \<le>s (c :: 64 word)" "0 \<le>s (iOfst :: 64 word)" "0 \<le>s (iAmt :: 32 word)"
  shows "(c < iOfst + scast iAmt) = (sint c < sint iOfst + sint iAmt)"
  using assms by (simp add: word_less_alt uint_szEnd uint_nonneg)

lemma sint_szEnd:
  assumes "0 \<le>s (c :: 64 word)" "0 \<le>s (iOfst :: 64 word)" "0 \<le>s (iAmt :: 32 word)"
    and "\<not> c < iOfst + scast iAmt"
  shows "sint (iOfst + scast iAmt) = sint iOfst + sint iAmt"
proof -
  have e: "uint (iOfst + scast iAmt) = sint iOfst + sint iAmt"
    using assms(2,3) by (rule uint_szEnd)
  have "uint (iOfst + scast iAmt) \<le> sint c"
    using assms by (simp add: ult_szEnd e)
  then have "uint (iOfst + scast iAmt) < 2 ^ 63" using sint_i64_bounds [of c] by simp
  then show ?thesis using sint_small [of "iOfst + scast iAmt"] e by simp
qed

lemma auroraWrite_full:
  "isAurMmap p \<noteq> 0 \<Longrightarrow> szMax p < iOfst + scast iAmt \<Longrightarrow>
   auroraWrite env p z iAmt iOfst w = (SQLITE_FULL, p, w)"
  by (simp add: auroraWrite_def)

text \<open>The handle and the memory after the copy, before the threshold is looked at.\<close>

lemma auroraWrite_fits:
  assumes "isAurMmap p \<noteq> 0" "\<not> szMax p < iOfst + scast iAmt"
  shows "auroraWrite env p z iAmt iOfst w =
     (let szEnd = iOfst + scast iAmt;
          p2 = p\<lparr>sz := (if sz p < szEnd then szEnd else sz p),
                 szWritten := szWritten p + scast iAmt\<rparr>;
          w1 = w\<lparr>mem := memcpy (mem w) (aData p + iOfst) z (scast iAmt)\<rparr>;
          w2 = w1\<lparr>calls := calls w @ [SasTraceCommit (fd p)]\<rparr>
      in
        if szThreshold p \<noteq> 0 \<and> szThreshold p < szWritten p + scast iAmt then
          (if rc (env (calls w) (SasTraceCommit (fd p))) <s 0
           then (SQLITE_ERROR_SNAPSHOT, p2, w2)
           else (SQLITE_OK, p2\<lparr>szWritten := 0\<rparr>, w2))
        else (SQLITE_OK, p2, w1))"
  using assms by (simp add: auroraWrite_def Let_def ext_call_def)

lemma memcpy_nth:
  assumes "0 \<le>s (iAmt :: 32 word)" "length z = nat (sint iAmt)" "i < length z"
  shows "memcpy m a z (scast iAmt) (a + of_nat i) = z ! i"
proof -
  have "sint iAmt < 2 ^ 31" using sint_int_bounds [of iAmt] by simp
  then have "nat (sint iAmt) < 2 ^ 31" by (simp add: nat_less_iff)
  then have "length z < 2 ^ 31" using assms(2) by simp
  then have "length z \<le> 2 ^ 64" by simp
  then show ?thesis
    using assms by (simp add: memcpy_def unat_scast_nonneg store_bytes_nth)
qed

lemma triple_collapse: "x = (fst x, fst (snd x), snd (snd x))"
  by simp

text \<open>
  Claim C1. A Memory-Backed handle with \<open>0 \<le> size \<le> capacity\<close> is written at an offset
  \<open>iOfst \<ge> 0\<close> with the \<open>iAmt \<ge> 0\<close> bytes \<open>z\<close>. When \<open>iOfst + iAmt \<le> capacity\<close> the call
  returns success, or SnapshotError and then a checkpoint commit was invoked and failed;
  either way the size is \<open>max (old size) (iOfst + iAmt)\<close>, hence at least
  \<open>iOfst + iAmt\<close>, and the buffer holds \<open>z\<close> at \<open>[iOfst, iOfst + iAmt)\<close>. When
  \<open>iOfst + iAmt > capacity\<close> the call returns Full and the handle (size, bytes-since-commit
  counter) and the world (buffer contents, log) are what they were.
\<close>

theorem auroraWrite_capacity:
  assumes mm: "isAurMmap p \<noteq> 0"
    and inv: "0 \<le>s sz p" "sz p \<le>s szMax p"
    and args: "0 \<le>s iOfst" "0 \<le>s iAmt" "length z = nat (sint iAmt)"
  shows
    "(sint iOfst + sint iAmt \<le> sint (szMax p) \<longrightarrow>
        (\<exists>r p' w'. auroraWrite env p z iAmt iOfst w = (r, p', w') \<and>
           (r = SQLITE_OK \<or>
            r = SQLITE_ERROR_SNAPSHOT \<and> calls w' = calls w @ [SasTraceCommit (fd p)] \<and>
            rc (env (calls w) (SasTraceCommit (fd p))) <s 0) \<and>
           sint (sz p') = max (sint (sz p)) (sint iOfst + sint iAmt) \<and>
           sint iOfst + sint iAmt \<le> sint (sz p') \<and>
           (\<forall>i < length z. mem w' (aData p + iOfst + of_nat i) = z ! i))) \<and>
     (sint (szMax p) < sint iOfst + sint iAmt \<longrightarrow>
        auroraWrite env p z iAmt iOfst w = (SQLITE_FULL, p, w))"
proof (intro conjI impI)
  have m0: "0 \<le>s szMax p" using inv by (simp add: word_sle_eq)
  {
    assume "sint (szMax p) < sint iOfst + sint iAmt"
    then have "szMax p < iOfst + scast iAmt" using m0 args by (simp add: ult_szEnd)
    then show "auroraWrite env p z iAmt iOfst w = (SQLITE_FULL, p, w)"
      using mm by (rule auroraWrite_full [rotated])
  }
  assume le: "sint iOfst + sint iAmt \<le> sint (szMax p)"
  then have fits: "\<not> szMax p < iOfst + scast iAmt" using m0 args by (simp add: ult_szEnd)
  have e: "sint (iOfst + scast iAmt) = sint iOfst + sint iAmt"
    using m0 args(1,2) fits by (rule sint_szEnd)
  have s: "(sz p < iOfst + scast iAmt) = (sint (sz p) < sint iOfst + sint iAmt)"
    using inv(1) args(1,2) by (rule ult_szEnd)
  have c: "\<forall>i < length z. memcpy (mem w) (aData p + iOfst) z (scast iAmt) (aData p + iOfst + of_nat i) = z ! i"
    using args(2,3) by (simp add: memcpy_nth)
  show "\<exists>r p' w'. auroraWrite env p z iAmt iOfst w = (r, p', w') \<and>
           (r = SQLITE_OK \<or>
            r = SQLITE_ERROR_SNAPSHOT \<and> calls w' = calls w @ [SasTraceCommit (fd p)] \<and>
            rc (env (calls w) (SasTraceCommit (fd p))) <s 0) \<and>
           sint (sz p') = max (sint (sz p)) (sint iOfst + sint iAmt) \<and>
           sint iOfst + sint iAmt \<le> sint (sz p') \<and>
           (\<forall>i < length z. mem w' (aData p + iOfst + of_nat i) = z ! i)"
    using c by (simp add: auroraWrite_fits [OF mm fits] Let_def s e)
qed

text \<open>
  The theorem at the handle of the spec's scenario: three bytes at offset 100 fit, three
  bytes at offset 999 do not.
\<close>

theorem auroraWrite_capacity_witness:
  "isAurMmap file0 \<noteq> 0 \<and> 0 \<le>s sz file0 \<and> sz file0 \<le>s szMax file0 \<and>
   0 \<le>s (100 :: i64) \<and> 0 \<le>s (999 :: i64) \<and> 0 \<le>s (3 :: c_int) \<and>
   length [1, 2, 3 :: byte] = nat (sint (3 :: c_int)) \<and>
   sint (100 :: i64) + sint (3 :: c_int) \<le> sint (szMax file0) \<and>
   (\<exists>r p' w'. auroraWrite env_ok file0 [1, 2, 3] 3 100 world0 = (r, p', w') \<and>
      (r = SQLITE_OK \<or>
       r = SQLITE_ERROR_SNAPSHOT \<and> calls w' = calls world0 @ [SasTraceCommit (fd file0)] \<and>
       rc (env_ok (calls world0) (SasTraceCommit (fd file0))) <s 0) \<and>
      sint (sz p') = max (sint (sz file0)) (sint (100 :: i64) + sint (3 :: c_int)) \<and>
      sint (100 :: i64) + sint (3 :: c_int) \<le> sint (sz p') \<and>
      (\<forall>i < length [1, 2, 3 :: byte].
         mem w' (aData file0 + 100 + of_nat i) = [1, 2, 3] ! i)) \<and>
   sint (szMax file0) < sint (999 :: i64) + sint (3 :: c_int) \<and>
   auroraWrite env_ok file0 [1, 2, 3] 3 999 world0 = (SQLITE_FULL, file0, world0)"
proof -
  have h: "isAurMmap file0 \<noteq> 0" "0 \<le>s sz file0" "sz file0 \<le>s szMax file0"
    by (simp_all add: file0_def word_sle_eq)
  have g: "0 \<le>s (3 :: c_int)" "length [1, 2, 3 :: byte] = nat (sint (3 :: c_int))"
    by (simp_all add: word_sle_eq)
  have a: "0 \<le>s (100 :: i64)" "sint (100 :: i64) + sint (3 :: c_int) \<le> sint (szMax file0)"
    by (simp_all add: file0_def word_sle_eq)
  have b: "0 \<le>s (999 :: i64)" "sint (szMax file0) < sint (999 :: i64) + sint (3 :: c_int)"
    by (simp_all add: file0_def word_sle_eq)
  note t1 = auroraWrite_capacity [OF h a(1) g, of env_ok world0]
  note t2 = auroraWrite_capacity [OF h b(1) g, of env_ok world0]
  show ?thesis using h g a b t1 t2 by blast
qed

text \<open>
  Claim C2. A Memory-Backed write that stays within capacity, with a counter that does
  not overflow. With threshold 0 no commit is invoked. With a threshold above 0 a commit
  is invoked, once, exactly when the counter after adding \<open>iAmt\<close> exceeds the threshold;
  when the commit succeeds the counter is 0 and the write returns success; when it fails
  the write returns SnapshotError and the counter keeps the added amount. In every case
  the size is updated and the bytes are in the buffer.
\<close>

theorem auroraWrite_checkpoint:
  assumes mm: "isAurMmap p \<noteq> 0"
    and inv: "0 \<le>s sz p" "sz p \<le>s szMax p"
    and args: "0 \<le>s iOfst" "0 \<le>s iAmt"
    and fits: "sint iOfst + sint iAmt \<le> sint (szMax p)"
    and cnt: "0 \<le>s szWritten p" "sint (szWritten p) + sint iAmt < 2 ^ 63"
    and res: "auroraWrite env p z iAmt iOfst w = (r, p', w')"
  shows
    "(szThreshold p = 0 \<longrightarrow>
        calls w' = calls w \<and> r = SQLITE_OK \<and>
        sint (szWritten p') = sint (szWritten p) + sint iAmt) \<and>
     (szThreshold p \<noteq> 0 \<longrightarrow>
        (uint (szThreshold p) < sint (szWritten p) + sint iAmt \<longrightarrow>
           calls w' = calls w @ [SasTraceCommit (fd p)] \<and>
           (\<not> rc (env (calls w) (SasTraceCommit (fd p))) <s 0 \<longrightarrow>
              r = SQLITE_OK \<and> szWritten p' = 0) \<and>
           (rc (env (calls w) (SasTraceCommit (fd p))) <s 0 \<longrightarrow>
              r = SQLITE_ERROR_SNAPSHOT \<and>
              sint (szWritten p') = sint (szWritten p) + sint iAmt)) \<and>
        (\<not> uint (szThreshold p) < sint (szWritten p) + sint iAmt \<longrightarrow>
           calls w' = calls w \<and> r = SQLITE_OK \<and>
           sint (szWritten p') = sint (szWritten p) + sint iAmt)) \<and>
     sint (sz p') = max (sint (sz p)) (sint iOfst + sint iAmt) \<and>
     mem w' = memcpy (mem w) (aData p + iOfst) z (scast iAmt)"
proof -
  have m0: "0 \<le>s szMax p" using inv by (simp add: word_sle_eq)
  have nf: "\<not> szMax p < iOfst + scast iAmt" using fits m0 args by (simp add: ult_szEnd)
  have e: "sint (iOfst + scast iAmt) = sint iOfst + sint iAmt"
    using m0 args nf by (rule sint_szEnd)
  have s: "(sz p < iOfst + scast iAmt) = (sint (sz p) < sint iOfst + sint iAmt)"
    using inv(1) args by (rule ult_szEnd)
  have cu: "uint (szWritten p + scast iAmt) = sint (szWritten p) + sint iAmt"
    using cnt(1) args(2) by (rule uint_szEnd)
  then have cs: "sint (szWritten p + scast iAmt) = sint (szWritten p) + sint iAmt"
    using cnt(2) sint_small [of "szWritten p + scast iAmt"] by simp
  have t: "(szThreshold p < szWritten p + scast iAmt) =
      (uint (szThreshold p) < sint (szWritten p) + sint iAmt)"
    by (simp add: word_less_alt cu)
  show ?thesis
    using res by (auto simp add: auroraWrite_fits [OF mm nf] Let_def s e cs t split: if_splits)
qed

text \<open>
  The theorem at the first write of the spec's scenario (60 bytes at offset 0 with
  threshold 50), with a checkpoint facility whose commit fails.
\<close>

theorem auroraWrite_checkpoint_witness:
  "isAurMmap file0 \<noteq> 0 \<and> 0 \<le>s sz file0 \<and> sz file0 \<le>s szMax file0 \<and>
   0 \<le>s (0 :: i64) \<and> 0 \<le>s (60 :: c_int) \<and>
   sint (0 :: i64) + sint (60 :: c_int) \<le> sint (szMax file0) \<and>
   0 \<le>s szWritten file0 \<and> sint (szWritten file0) + sint (60 :: c_int) < 2 ^ 63 \<and>
   szThreshold file0 \<noteq> 0 \<and>
   uint (szThreshold file0) < sint (szWritten file0) + sint (60 :: c_int) \<and>
   rc (env_commit_fails (calls world0) (SasTraceCommit (fd file0))) <s 0 \<and>
   fst (auroraWrite env_commit_fails file0 (replicate 60 7) 60 0 world0) =
     SQLITE_ERROR_SNAPSHOT \<and>
   calls (snd (snd (auroraWrite env_commit_fails file0 (replicate 60 7) 60 0 world0))) =
     calls world0 @ [SasTraceCommit (fd file0)] \<and>
   sint (szWritten (fst (snd (auroraWrite env_commit_fails file0 (replicate 60 7) 60 0
     world0)))) = sint (szWritten file0) + sint (60 :: c_int) \<and>
   sint (sz (fst (snd (auroraWrite env_commit_fails file0 (replicate 60 7) 60 0 world0)))) =
     max (sint (sz file0)) (sint (0 :: i64) + sint (60 :: c_int))"
proof -
  have h: "isAurMmap file0 \<noteq> 0" "0 \<le>s sz file0" "sz file0 \<le>s szMax file0"
    by (simp_all add: file0_def word_sle_eq)
  have a: "0 \<le>s (0 :: i64)" "0 \<le>s (60 :: c_int)"
    "sint (0 :: i64) + sint (60 :: c_int) \<le> sint (szMax file0)"
    by (simp_all add: file0_def word_sle_eq)
  have c: "0 \<le>s szWritten file0" "sint (szWritten file0) + sint (60 :: c_int) < 2 ^ 63"
    by (simp_all add: file0_def word_sle_eq)
  have t: "szThreshold file0 \<noteq> 0"
    "uint (szThreshold file0) < sint (szWritten file0) + sint (60 :: c_int)"
    "rc (env_commit_fails (calls world0) (SasTraceCommit (fd file0))) <s 0"
    by (simp_all add: file0_def env_commit_fails_def word_sless_alt)
  note r = auroraWrite_checkpoint [OF h a c triple_collapse, of env_commit_fails "replicate 60 7" world0]
  show ?thesis using h a c t r by blast
qed

section \<open>Truncating\<close>

lemma uint_diff_sless:
  assumes "sint (a :: 64 word) < sint (b :: 64 word)"
  shows "uint (b - a) = sint b - sint a"
proof -
  have "b - a = word_of_int (sint b - sint a)" by simp
  then have "uint (b - a) = take_bit 64 (sint b - sint a)"
    by (simp only: uint_word_of_int_eq) simp
  moreover have "sint b - sint a < 2 ^ 64"
    using sint_i64_bounds [of a] sint_i64_bounds [of b] by simp
  ultimately show ?thesis using assms by (simp add: take_bit_int_eq_self)
qed

lemma memset_inside:
  "i < unat n \<Longrightarrow> memset m a c n (a + of_nat i) = c"
proof -
  assume i: "i < unat n"
  have "unat n < 2 ^ LENGTH(64)" by (rule unsigned_less)
  then have "length (replicate (unat n) c) \<le> 2 ^ 64" by simp
  then have "store_bytes m a (replicate (unat n) c) (a + of_nat i) = replicate (unat n) c ! i"
    using i by (intro store_bytes_nth) simp_all
  then show ?thesis using i by (simp add: memset_def)
qed

lemma memset_outside:
  "(\<And>i. i < unat n \<Longrightarrow> x \<noteq> a + of_nat i) \<Longrightarrow> memset m a c n x = m x"
  unfolding memset_def by (rule store_bytes_other) simp

text \<open>
  Claim C3. A Memory-Backed handle with \<open>size \<le> capacity\<close> is truncated to \<open>n\<close>. When
  \<open>size < n \<le> capacity\<close> the call succeeds, the size becomes \<open>n\<close>, every byte of the
  buffer at an offset in \<open>[old size, n)\<close> is zero and no other byte of memory changes.
  When \<open>n > capacity\<close> the call returns Full and neither the handle nor the world
  changes. When \<open>n \<le> size\<close> the call succeeds and only sets the size: memory is what it
  was, so the bytes past \<open>n\<close> are not cleared.
\<close>

theorem auroraTruncate_cases:
  assumes mm: "isAurMmap p \<noteq> 0" and inv: "sint (sz p) \<le> sint (szMax p)"
  shows
    "(sint (sz p) < sint n \<and> sint n \<le> sint (szMax p) \<longrightarrow>
        (\<exists>w'. auroraTruncate env p n w = (SQLITE_OK, p\<lparr>sz := n\<rparr>, w') \<and>
           (\<forall>k. sint (sz p) \<le> k \<and> k < sint n \<longrightarrow> mem w' (aData p + of_int k) = 0) \<and>
           (\<forall>x. (\<forall>k. sint (sz p) \<le> k \<and> k < sint n \<longrightarrow> x \<noteq> aData p + of_int k) \<longrightarrow>
              mem w' x = mem w x) \<and>
           calls w' = calls w \<and> mainDbName w' = mainDbName w)) \<and>
     (sint (szMax p) < sint n \<longrightarrow> auroraTruncate env p n w = (SQLITE_FULL, p, w)) \<and>
     (sint n \<le> sint (sz p) \<longrightarrow> auroraTruncate env p n w = (SQLITE_OK, p\<lparr>sz := n\<rparr>, w))"
proof (intro conjI impI)
  assume "sint (szMax p) < sint n"
  then show "auroraTruncate env p n w = (SQLITE_FULL, p, w)"
    using mm inv by (simp add: auroraTruncate_def word_sless_alt)
next
  assume "sint n \<le> sint (sz p)"
  then show "auroraTruncate env p n w = (SQLITE_OK, p\<lparr>sz := n\<rparr>, w)"
    using mm by (simp add: auroraTruncate_def word_sless_alt)
next
  assume g: "sint (sz p) < sint n \<and> sint n \<le> sint (szMax p)"
  define w' where "w' = w\<lparr>mem := memset (mem w) (aData p + sz p) 0 (n - sz p)\<rparr>"
  have len: "unat (n - sz p) = nat (sint n - sint (sz p))"
    using g by (simp add: unat_eq_nat_uint uint_diff_sless)
  have r: "auroraTruncate env p n w = (SQLITE_OK, p\<lparr>sz := n\<rparr>, w')"
    using mm g by (simp add: auroraTruncate_def word_sless_alt w'_def)
  have z: "mem w' (aData p + of_int k) = 0" if k: "sint (sz p) \<le> k \<and> k < sint n" for k
  proof -
    have "nat (k - sint (sz p)) < unat (n - sz p)" using k len by simp
    then have "memset (mem w) (aData p + sz p) 0 (n - sz p)
        (aData p + sz p + of_nat (nat (k - sint (sz p)))) = 0"
      by (rule memset_inside)
    moreover have "sz p + of_nat (nat (k - sint (sz p))) = (of_int k :: 64 word)"
      using k by simp
    ultimately show ?thesis by (simp add: w'_def add.assoc)
  qed
  have f: "mem w' x = mem w x"
    if x: "\<forall>k. sint (sz p) \<le> k \<and> k < sint n \<longrightarrow> x \<noteq> aData p + of_int k" for x
  proof -
    have "memset (mem w) (aData p + sz p) 0 (n - sz p) x = mem w x"
    proof (rule memset_outside)
      fix i assume i: "i < unat (n - sz p)"
      then have "sint (sz p) \<le> sint (sz p) + int i \<and> sint (sz p) + int i < sint n"
        using len by simp
      then have "x \<noteq> aData p + of_int (sint (sz p) + int i)" using x by blast
      then show "x \<noteq> aData p + sz p + of_nat i" by (simp add: add.assoc)
    qed
    then show ?thesis by (simp add: w'_def)
  qed
  show "\<exists>w'. auroraTruncate env p n w = (SQLITE_OK, p\<lparr>sz := n\<rparr>, w') \<and>
           (\<forall>k. sint (sz p) \<le> k \<and> k < sint n \<longrightarrow> mem w' (aData p + of_int k) = 0) \<and>
           (\<forall>x. (\<forall>k. sint (sz p) \<le> k \<and> k < sint n \<longrightarrow> x \<noteq> aData p + of_int k) \<longrightarrow>
              mem w' x = mem w x) \<and>
           calls w' = calls w \<and> mainDbName w' = mainDbName w"
    using r z f by (intro exI [of _ w']) (simp add: w'_def)
qed

text \<open>
  The theorem at the handle of the spec's scenario (size 100, capacity 1000): growth to
  200, growth to 2000 and shrinking to 50.
\<close>

theorem auroraTruncate_cases_witness:
  "isAurMmap file0 \<noteq> 0 \<and> sint (sz file0) \<le> sint (szMax file0) \<and>
   sint (sz file0) < sint (200 :: i64) \<and> sint (200 :: i64) \<le> sint (szMax file0) \<and>
   (\<exists>w'. auroraTruncate env_ok file0 200 world0 = (SQLITE_OK, file0\<lparr>sz := 200\<rparr>, w') \<and>
      (\<forall>k. sint (sz file0) \<le> k \<and> k < sint (200 :: i64) \<longrightarrow>
         mem w' (aData file0 + of_int k) = 0) \<and>
      (\<forall>x. (\<forall>k. sint (sz file0) \<le> k \<and> k < sint (200 :: i64) \<longrightarrow>
              x \<noteq> aData file0 + of_int k) \<longrightarrow>
         mem w' x = mem world0 x) \<and>
      calls w' = calls world0 \<and> mainDbName w' = mainDbName world0) \<and>
   sint (szMax file0) < sint (2000 :: i64) \<and>
   auroraTruncate env_ok file0 2000 world0 = (SQLITE_FULL, file0, world0) \<and>
   sint (50 :: i64) \<le> sint (sz file0) \<and>
   auroraTruncate env_ok file0 50 world0 = (SQLITE_OK, file0\<lparr>sz := 50\<rparr>, world0)"
proof -
  have h: "isAurMmap file0 \<noteq> 0" "sint (sz file0) \<le> sint (szMax file0)"
    by (simp_all add: file0_def)
  have a: "sint (sz file0) < sint (200 :: i64) \<and> sint (200 :: i64) \<le> sint (szMax file0)"
    by (simp add: file0_def)
  have b: "sint (szMax file0) < sint (2000 :: i64)" by (simp add: file0_def)
  have c: "sint (50 :: i64) \<le> sint (sz file0)" by (simp add: file0_def)
  note t1 = auroraTruncate_cases [OF h, of 200 env_ok world0]
  note t2 = auroraTruncate_cases [OF h, of 2000 env_ok world0]
  note t3 = auroraTruncate_cases [OF h, of 50 env_ok world0]
  show ?thesis using h a b c t1 t2 t3 by blast
qed

section \<open>Syncing\<close>

lemma sint_zero_iff: "sint (x :: 64 word) = 0 \<longleftrightarrow> x = 0"
proof
  assume "sint x = 0"
  moreover have "x = word_of_int (sint x)" by simp
  ultimately show "x = 0" by simp
qed simp

text \<open>
  Claim C4. A Memory-Backed handle whose counter is not negative is synced. A checkpoint
  commit is invoked, once, exactly when \<open>bCkptOnSync\<close> holds and the counter is above 0:
  when it succeeds the counter is reset to 0 and sync returns success, when it fails sync
  returns SnapshotError and the handle keeps its counter. Otherwise, and so always when
  \<open>bCkptOnSync\<close> is false, sync returns success and changes nothing: no commit is logged.
\<close>

theorem auroraSync_checkpoint:
  assumes mm: "isAurMmap p \<noteq> 0" and cnt: "0 \<le> sint (szWritten p)"
  shows
    "(bCkptOnSync p \<and> 0 < sint (szWritten p) \<longrightarrow>
        (\<not> rc (env (calls w) (SasTraceCommit (fd p))) <s 0 \<longrightarrow>
           auroraSync env p flags w =
             (SQLITE_OK, p\<lparr>szWritten := 0\<rparr>, w\<lparr>calls := calls w @ [SasTraceCommit (fd p)]\<rparr>)) \<and>
        (rc (env (calls w) (SasTraceCommit (fd p))) <s 0 \<longrightarrow>
           auroraSync env p flags w =
             (SQLITE_ERROR_SNAPSHOT, p, w\<lparr>calls := calls w @ [SasTraceCommit (fd p)]\<rparr>))) \<and>
     (\<not> (bCkptOnSync p \<and> 0 < sint (szWritten p)) \<longrightarrow>
        auroraSync env p flags w = (SQLITE_OK, p, w))"
proof -
  have "(szWritten p = 0) = (\<not> 0 < sint (szWritten p))"
    using cnt sint_zero_iff [of "szWritten p"] by auto
  then show ?thesis
    using mm by (simp add: auroraSync_def ext_call_def)
qed

text \<open>
  The theorem at a handle with ten pending bytes: a commit that succeeds, a commit that
  fails, and checkpoint-on-sync switched off.
\<close>

theorem auroraSync_checkpoint_witness:
  "isAurMmap (file0\<lparr>szWritten := 10\<rparr>) \<noteq> 0 \<and>
   0 \<le> sint (szWritten (file0\<lparr>szWritten := 10\<rparr>)) \<and>
   bCkptOnSync (file0\<lparr>szWritten := 10\<rparr>) \<and>
   0 < sint (szWritten (file0\<lparr>szWritten := 10\<rparr>)) \<and>
   \<not> rc (env_ok (calls world0) (SasTraceCommit (fd (file0\<lparr>szWritten := 10\<rparr>)))) <s 0 \<and>
   auroraSync env_ok (file0\<lparr>szWritten := 10\<rparr>) 2 world0 =
     (SQLITE_OK, file0\<lparr>szWritten := 10, szWritten := 0\<rparr>,
      world0\<lparr>calls := calls world0 @ [SasTraceCommit (fd (file0\<lparr>szWritten := 10\<rparr>))]\<rparr>) \<and>
   rc (env_commit_fails (calls world0) (SasTraceCommit (fd (file0\<lparr>szWritten := 10\<rparr>)))) <s 0 \<and>
   auroraSync env_commit_fails (file0\<lparr>szWritten := 10\<rparr>) 2 world0 =
     (SQLITE_ERROR_SNAPSHOT, file0\<lparr>szWritten := 10\<rparr>,
      world0\<lparr>calls := calls world0 @ [SasTraceCommit (fd (file0\<lparr>szWritten := 10\<rparr>))]\<rparr>) \<and>
   \<not> (bCkptOnSync (file0\<lparr>szWritten := 10, bCkptOnSync := False\<rparr>) \<and>
       0 < sint (szWritten (file0\<lparr>szWritten := 10, bCkptOnSync := False\<rparr>))) \<and>
   auroraSync env_ok (file0\<lparr>szWritten := 10, bCkptOnSync := False\<rparr>) 2 world0 =
     (SQLITE_OK, file0\<lparr>szWritten := 10, bCkptOnSync := False\<rparr>, world0)"
proof -
  let ?p = "file0\<lparr>szWritten := 10\<rparr>"
  let ?q = "file0\<lparr>szWritten := 10, bCkptOnSync := False\<rparr>"
  have h: "isAurMmap ?p \<noteq> 0" "0 \<le> sint (szWritten ?p)"
    and g: "isAurMmap ?q \<noteq> 0" "0 \<le> sint (szWritten ?q)"
    by (simp_all add: file0_def)
  have a: "bCkptOnSync ?p \<and> 0 < sint (szWritten ?p)" by (simp add: file0_def)
  have b: "\<not> rc (env_ok (calls world0) (SasTraceCommit (fd ?p))) <s 0"
    by (simp add: env_ok_def)
  have c: "rc (env_commit_fails (calls world0) (SasTraceCommit (fd ?p))) <s 0"
    by (simp add: env_commit_fails_def word_sless_alt)
  have d: "\<not> (bCkptOnSync ?q \<and> 0 < sint (szWritten ?q))" by simp
  note t1 = auroraSync_checkpoint [OF h, of env_ok world0 2]
  note t2 = auroraSync_checkpoint [OF h, of env_commit_fails world0 2]
  note t3 = auroraSync_checkpoint [OF g, of env_ok world0 2]
  show ?thesis using h a b c d t1 t2 t3 by simp
qed

section \<open>Opening\<close>

lemma auroraOpen_delegated:
  "flags AND SQLITE_OPEN_MAIN_DB = 0 \<Longrightarrow>
   auroraOpen env zName flags w =
     open_finish zName (rc (env (calls w) (OrigOpen (zPath zName) flags))) zero_file
       (w\<lparr>calls := calls w @ [OrigOpen (zPath zName) flags]\<rparr>)"
  by (simp add: auroraOpen_def ext_call_def Let_def zero_file_def)

text \<open>
  What \<^verbatim>\<open>sqlite3_uri_int64\<close> gives for an absent and for a present key, and the keys
  the open reads: two names with the same path that agree on these six keys are opened
  alike, whatever other parameters they carry.
\<close>

lemma sqlite3_uri_int64_absent:
  "map_of (zQuery zName) k = None \<Longrightarrow> sqlite3_uri_int64 zName k d = d"
  by (simp add: sqlite3_uri_int64_def)

lemma sqlite3_uri_int64_present:
  "map_of (zQuery zName) k = Some v \<Longrightarrow> sqlite3_uri_int64 zName k d = v"
  by (simp add: sqlite3_uri_int64_def)

lemma auroraOpen_keys_read:
  assumes path: "zPath n1 = zPath n2"
    and keys: "\<And>k. k \<in> {''ptr'', ''sz'', ''max'', ''fd'', ''threshold'', ''ckptOnSync''} \<Longrightarrow>
      map_of (zQuery n1) k = map_of (zQuery n2) k"
  shows "auroraOpen env n1 flags w = auroraOpen env n2 flags w"
proof -
  have u: "sqlite3_uri_int64 n1 k d = sqlite3_uri_int64 n2 k d"
    if "k \<in> {''ptr'', ''sz'', ''max'', ''fd'', ''threshold'', ''ckptOnSync''}" for k d
    using keys [OF that] by (simp add: sqlite3_uri_int64_def)
  have e: "sqlite3_uri_int64 n1 ''ptr'' = sqlite3_uri_int64 n2 ''ptr''"
    "sqlite3_uri_int64 n1 ''sz'' = sqlite3_uri_int64 n2 ''sz''"
    "sqlite3_uri_int64 n1 ''max'' = sqlite3_uri_int64 n2 ''max''"
    "sqlite3_uri_int64 n1 ''fd'' = sqlite3_uri_int64 n2 ''fd''"
    "sqlite3_uri_int64 n1 ''threshold'' = sqlite3_uri_int64 n2 ''threshold''"
    "sqlite3_uri_int64 n1 ''ckptOnSync'' = sqlite3_uri_int64 n2 ''ckptOnSync''"
    by (rule ext, rule u, simp)+
  show ?thesis
    unfolding auroraOpen_def open_finish_def path e ..
qed

text \<open>
  Claim C5, as amended. A Memory-Backed open (the flags name the main database) returns
  CantOpen without any external call exactly when the \<^verbatim>\<open>ptr\<close> parameter is absent or
  zero, \<^verbatim>\<open>sz\<close> is absent or negative, the capacity the open reads (\<open>m\<close>, which is
  \<^verbatim>\<open>sz\<close> when its key is absent) is less than \<^verbatim>\<open>sz\<close>, or \<^verbatim>\<open>fd\<close>, stored in
  an \<^verbatim>\<open>int\<close>, is absent or zero. The checks are made in this order, each on the handle
  the earlier ones filled. When they pass, the checkpoint session is started: a non-zero
  answer gives Internal and the delegate is not opened. Otherwise the delegate is opened
  and the status of the open is the delegate's, whatever it is.
\<close>

theorem auroraOpen_memory_backed:
  assumes main: "flags AND SQLITE_OPEN_MAIN_DB \<noteq> 0"
    and ptr: "ptr = sqlite3_uri_int64 zName ''ptr'' 0"
    and s: "s = sqlite3_uri_int64 zName ''sz'' (- 1)"
    and m: "m = sqlite3_uri_int64 zName ''max'' s"
    and f: "f = (ucast (sqlite3_uri_int64 zName ''fd'' 0) :: c_int)"
    and p0: "p0 = zero_file\<lparr>isAurMmap := flags AND SQLITE_OPEN_MAIN_DB\<rparr>"
    and res: "auroraOpen env zName flags w = (r, p', w')"
  shows
    "((r = SQLITE_CANTOPEN \<and> calls w' = calls w) \<longleftrightarrow>
        (ptr = 0 \<or> s <s 0 \<or> m <s s \<or> f = 0)) \<and>
     (ptr = 0 \<longrightarrow> r = SQLITE_CANTOPEN \<and> p' = p0\<lparr>aData := ptr\<rparr> \<and> w' = w) \<and>
     (ptr \<noteq> 0 \<and> s <s 0 \<longrightarrow>
        r = SQLITE_CANTOPEN \<and> p' = p0\<lparr>aData := ptr, sz := s\<rparr> \<and> w' = w) \<and>
     (ptr \<noteq> 0 \<and> \<not> s <s 0 \<and> m <s s \<longrightarrow>
        r = SQLITE_CANTOPEN \<and> p' = p0\<lparr>aData := ptr, sz := s, szMax := m\<rparr> \<and> w' = w) \<and>
     (ptr \<noteq> 0 \<and> \<not> s <s 0 \<and> \<not> m <s s \<and> f = 0 \<longrightarrow>
        r = SQLITE_CANTOPEN \<and> p' = p0\<lparr>aData := ptr, sz := s, szMax := m, fd := f\<rparr> \<and>
        w' = w) \<and>
     (ptr \<noteq> 0 \<and> \<not> s <s 0 \<and> \<not> m <s s \<and> f \<noteq> 0 \<and>
      rc (env (calls w) (SasTraceStart f)) \<noteq> 0 \<longrightarrow>
        r = SQLITE_INTERNAL \<and> p' = p0\<lparr>aData := ptr, sz := s, szMax := m, fd := f\<rparr> \<and>
        w' = w\<lparr>calls := calls w @ [SasTraceStart f]\<rparr>) \<and>
     (ptr \<noteq> 0 \<and> \<not> s <s 0 \<and> \<not> m <s s \<and> f \<noteq> 0 \<and>
      rc (env (calls w) (SasTraceStart f)) = 0 \<longrightarrow>
        r = rc (env (calls w @ [SasTraceStart f]) (OrigOpen (zPath zName) flags)) \<and>
        calls w' = calls w @ [SasTraceStart f, OrigOpen (zPath zName) flags] \<and>
        mainDbName w' = Some (zPath zName) \<and> pMethods p' = (r = 0) \<and>
        aData p' = ptr \<and> sz p' = s \<and> szMax p' = m \<and> fd p' = f)"
  using main res unfolding ptr s m f p0
  by (auto simp add: auroraOpen_def ext_call_def Let_def open_finish_def zero_file_def
      split: if_splits)

text \<open>The theorem at the name of the spec's scenario, where every external call succeeds.\<close>

theorem auroraOpen_memory_backed_witness:
  "SQLITE_OPEN_MAIN_DB AND SQLITE_OPEN_MAIN_DB \<noteq> 0 \<and>
   sqlite3_uri_int64 name0 ''ptr'' 0 = 4096 \<and>
   sqlite3_uri_int64 name0 ''sz'' (- 1) = 100 \<and>
   sqlite3_uri_int64 name0 ''max'' 100 = 1000 \<and>
   (ucast (sqlite3_uri_int64 name0 ''fd'' 0) :: c_int) = 7 \<and>
   rc (env_ok (calls world0) (SasTraceStart 7)) = 0 \<and>
   fst (auroraOpen env_ok name0 SQLITE_OPEN_MAIN_DB world0) = SQLITE_OK \<and>
   calls (snd (snd (auroraOpen env_ok name0 SQLITE_OPEN_MAIN_DB world0))) =
     [SasTraceStart 7, OrigOpen ''/whatever'' SQLITE_OPEN_MAIN_DB] \<and>
   szMax (fst (snd (auroraOpen env_ok name0 SQLITE_OPEN_MAIN_DB world0))) = 1000"
proof -
  have h: "SQLITE_OPEN_MAIN_DB AND SQLITE_OPEN_MAIN_DB \<noteq> 0"
    by (simp add: SQLITE_OPEN_MAIN_DB_def)
  have a: "(4096 :: i64) = sqlite3_uri_int64 name0 ''ptr'' 0"
    "(100 :: i64) = sqlite3_uri_int64 name0 ''sz'' (- 1)"
    "(1000 :: i64) = sqlite3_uri_int64 name0 ''max'' 100"
    "(7 :: c_int) = ucast (sqlite3_uri_int64 name0 ''fd'' 0)"
    by (simp_all add: sqlite3_uri_int64_def name0_def)
  have e: "rc (env_ok (calls world0) (SasTraceStart 7)) = 0"
    "rc (env_ok (calls world0 @ [SasTraceStart 7])
        (OrigOpen (zPath name0) SQLITE_OPEN_MAIN_DB)) = SQLITE_OK"
    "calls world0 = []" "zPath name0 = ''/whatever''"
    by (simp_all add: env_ok_def SQLITE_OK_def world0_def name0_def)
  have v: "(4096 :: i64) \<noteq> 0 \<and> \<not> (100 :: i64) <s 0 \<and> \<not> (1000 :: i64) <s 100 \<and>
      (7 :: c_int) \<noteq> 0"
    by (simp add: word_sless_alt)
  note t = auroraOpen_memory_backed [OF h a refl triple_collapse, of env_ok world0]
  show ?thesis using h a [symmetric] e v t by simp
qed

text \<open>
  Claim C5 as stated fails: with all four parameters present and valid, the open still
  returns CantOpen when that is the delegate's answer.
\<close>

theorem auroraOpen_cantopen_counterexample:
  "fst (auroraOpen env_refusing name0 SQLITE_OPEN_MAIN_DB world0) = SQLITE_CANTOPEN \<and>
   map_of (zQuery name0) ''ptr'' = Some 4096 \<and>
   map_of (zQuery name0) ''sz'' = Some 100 \<and>
   map_of (zQuery name0) ''max'' = Some 1000 \<and>
   map_of (zQuery name0) ''fd'' = Some 7 \<and>
   \<not> (sqlite3_uri_int64 name0 ''ptr'' 0 = 0 \<or>
      sqlite3_uri_int64 name0 ''sz'' (- 1) <s 0 \<or>
      sqlite3_uri_int64 name0 ''max'' (sqlite3_uri_int64 name0 ''sz'' (- 1))
        <s sqlite3_uri_int64 name0 ''sz'' (- 1) \<or>
      sqlite3_uri_int64 name0 ''fd'' 0 = 0)"
  by (simp add: auroraOpen_def ext_call_def Let_def open_finish_def zero_file_def
      sqlite3_uri_int64_def name0_def env_refusing_def world0_def word_sless_alt
      SQLITE_OPEN_MAIN_DB_def SQLITE_CANTOPEN_def)

text \<open>
  Claim C7 at a failing input: the capacity is given as \<^verbatim>\<open>maxsz=65536\<close> with
  \<^verbatim>\<open>sz=14336\<close>. The open succeeds and the capacity of the handle is 14336: the key
  \<^verbatim>\<open>maxsz\<close> is not read.
\<close>

theorem auroraOpen_ignores_maxsz:
  "map_of (zQuery name_maxsz) ''maxsz'' = Some 65536 \<and>
   map_of (zQuery name_maxsz) ''sz'' = Some 14336 \<and>
   fst (auroraOpen env_ok name_maxsz SQLITE_OPEN_MAIN_DB world0) = SQLITE_OK \<and>
   szMax (fst (snd (auroraOpen env_ok name_maxsz SQLITE_OPEN_MAIN_DB world0))) = 14336"
  by (simp add: auroraOpen_def ext_call_def Let_def open_finish_def zero_file_def
      sqlite3_uri_int64_def name_maxsz_def env_ok_def world0_def word_sless_alt
      SQLITE_OPEN_MAIN_DB_def SQLITE_OK_def)

section \<open>Closing\<close>

text \<open>
  Claim C8, as amended. A handle that open has made usable had its delegate opened, in
  either mode. Closing a Delegated handle calls the delegate's close and returns its
  status. Closing a Memory-Backed handle returns success and makes no call: the delegate
  is not closed.
\<close>

theorem auroraClose_by_mode:
  assumes res: "auroraOpen env zName flags w0 = (r, p, w)"
    and usable: "pMethods p"
  shows
    "OrigOpen (zPath zName) flags \<in> set (calls w) \<and>
     (isAurMmap p = 0 \<longrightarrow>
        auroraClose env p w =
          (rc (env (calls w) RealClose), w\<lparr>calls := calls w @ [RealClose]\<rparr>)) \<and>
     (isAurMmap p \<noteq> 0 \<longrightarrow> auroraClose env p w = (SQLITE_OK, w))"
  using res usable
  by (auto simp add: auroraOpen_def auroraClose_def ext_call_def Let_def open_finish_def
      zero_file_def split: if_splits)

text \<open>The theorem at the handle that the open of the spec's scenario returns.\<close>

theorem auroraClose_by_mode_witness:
  "pMethods (fst (snd (auroraOpen env_ok name0 SQLITE_OPEN_MAIN_DB world0))) \<and>
   isAurMmap (fst (snd (auroraOpen env_ok name0 SQLITE_OPEN_MAIN_DB world0))) \<noteq> 0 \<and>
   OrigOpen (zPath name0) SQLITE_OPEN_MAIN_DB
     \<in> set (calls (snd (snd (auroraOpen env_ok name0 SQLITE_OPEN_MAIN_DB world0)))) \<and>
   auroraClose env_ok (fst (snd (auroraOpen env_ok name0 SQLITE_OPEN_MAIN_DB world0)))
       (snd (snd (auroraOpen env_ok name0 SQLITE_OPEN_MAIN_DB world0))) =
     (SQLITE_OK, snd (snd (auroraOpen env_ok name0 SQLITE_OPEN_MAIN_DB world0)))"
proof -
  let ?o = "auroraOpen env_ok name0 SQLITE_OPEN_MAIN_DB world0"
  have u: "pMethods (fst (snd ?o))" and m: "isAurMmap (fst (snd ?o)) \<noteq> 0"
    by (simp_all add: auroraOpen_def ext_call_def Let_def open_finish_def zero_file_def
        sqlite3_uri_int64_def name0_def env_ok_def world0_def word_sless_alt
        SQLITE_OPEN_MAIN_DB_def)
  note t = auroraClose_by_mode [where env = env_ok and zName = name0 and flags = SQLITE_OPEN_MAIN_DB
      and ?w0.0 = world0, OF triple_collapse u]
  show ?thesis using u m t by blast
qed

text \<open>
  Claim C8 as stated fails: a Memory-Backed open followed by a close leaves a log with the
  delegate's open and without its close.
\<close>

theorem auroraClose_leaves_delegate_open:
  "fst (auroraOpen env_ok name0 SQLITE_OPEN_MAIN_DB world0) = SQLITE_OK \<and>
   calls (snd (snd (auroraOpen env_ok name0 SQLITE_OPEN_MAIN_DB world0))) =
     [SasTraceStart 7, OrigOpen ''/whatever'' SQLITE_OPEN_MAIN_DB] \<and>
   fst (auroraClose env_ok
      (fst (snd (auroraOpen env_ok name0 SQLITE_OPEN_MAIN_DB world0)))
      (snd (snd (auroraOpen env_ok name0 SQLITE_OPEN_MAIN_DB world0)))) = SQLITE_OK \<and>
   RealClose \<notin> set (calls (snd (auroraClose env_ok
      (fst (snd (auroraOpen env_ok name0 SQLITE_OPEN_MAIN_DB world0)))
      (snd (snd (auroraOpen env_ok name0 SQLITE_OPEN_MAIN_DB world0))))))"
  by (simp add: auroraOpen_def auroraClose_def ext_call_def Let_def open_finish_def
      zero_file_def sqlite3_uri_int64_def name0_def env_ok_def world0_def word_sless_alt
      SQLITE_OPEN_MAIN_DB_def SQLITE_OK_def)

section \<open>Locking\<close>

lemma auroraLock_always_ok:
  "fst (auroraLock env p eLock w) = SQLITE_OK \<and> fst (auroraUnlock env p eLock w) = SQLITE_OK"
  by (simp add: auroraLock_def auroraUnlock_def ext_call_def)

text \<open>
  Claim C9 at a failing input: a Delegated handle whose delegate answers
  \<^verbatim>\<open>SQLITE_BUSY\<close>. The lock and the unlock are forwarded, and both return
  \<^verbatim>\<open>SQLITE_OK\<close> instead of the delegate's status.
\<close>

theorem auroraLock_drops_status:
  "isAurMmap file_delegated = 0 \<and>
   rc (env_refusing (calls world0) (RealLock 1)) = SQLITE_BUSY \<and>
   auroraLock env_refusing file_delegated 1 world0 =
     (SQLITE_OK, world0\<lparr>calls := [RealLock 1]\<rparr>) \<and>
   rc (env_refusing (calls world0) (RealUnlock 0)) = SQLITE_BUSY \<and>
   auroraUnlock env_refusing file_delegated 0 world0 =
     (SQLITE_OK, world0\<lparr>calls := [RealUnlock 0]\<rparr>) \<and>
   SQLITE_OK \<noteq> SQLITE_BUSY"
  by (simp add: auroraLock_def auroraUnlock_def ext_call_def file_delegated_def zero_file_def
      env_refusing_def world0_def SQLITE_OK_def SQLITE_BUSY_def)

section \<open>The access query\<close>

text \<open>
  Claim C10. When the queried name is the recorded primary-database name, the query
  answers 1 with success and the world, its log included, is unchanged: the provider is
  not consulted. For every other name, and for every name while nothing is recorded, the
  query is logged as one call to the provider and returns the provider's status and
  answer. An open leaves the record as it was, or sets it to the opened name, and then the
  handle is Memory-Backed.
\<close>

theorem auroraAccess_override:
  "(mainDbName w = Some zPath' \<longrightarrow> auroraAccess env zPath' flags w = (SQLITE_OK, 1, w)) \<and>
   (mainDbName w \<noteq> Some zPath' \<longrightarrow>
      auroraAccess env zPath' flags w =
        (rc (env (calls w) (OrigAccess zPath' flags)),
         ucast (out (env (calls w) (OrigAccess zPath' flags))),
         w\<lparr>calls := calls w @ [OrigAccess zPath' flags]\<rparr>)) \<and>
   (mainDbName (snd (snd (auroraOpen env zName fl w))) = mainDbName w \<or>
    mainDbName (snd (snd (auroraOpen env zName fl w))) = Some (zPath zName) \<and>
    isAurMmap (fst (snd (auroraOpen env zName fl w))) \<noteq> 0)"
  by (auto simp add: auroraAccess_def auroraOpen_def ext_call_def Let_def open_finish_def
      zero_file_def split: if_splits)

text \<open>
  The theorem after the open of the spec's scenario, and before any open, with a provider
  that would answer "absent".
\<close>

theorem auroraAccess_override_witness:
  "mainDbName (snd (snd (auroraOpen env_ok name0 SQLITE_OPEN_MAIN_DB world0))) =
     Some ''/whatever'' \<and>
   auroraAccess env_refusing ''/whatever'' 0
       (snd (snd (auroraOpen env_ok name0 SQLITE_OPEN_MAIN_DB world0))) =
     (SQLITE_OK, 1, snd (snd (auroraOpen env_ok name0 SQLITE_OPEN_MAIN_DB world0))) \<and>
   mainDbName world0 \<noteq> Some ''/whatever'' \<and>
   auroraAccess env_refusing ''/whatever'' 0 world0 =
     (rc (env_refusing (calls world0) (OrigAccess ''/whatever'' 0)),
      ucast (out (env_refusing (calls world0) (OrigAccess ''/whatever'' 0))),
      world0\<lparr>calls := calls world0 @ [OrigAccess ''/whatever'' 0]\<rparr>)"
proof -
  let ?w = "snd (snd (auroraOpen env_ok name0 SQLITE_OPEN_MAIN_DB world0))"
  have a: "mainDbName ?w = Some ''/whatever''"
    by (simp add: auroraOpen_def ext_call_def Let_def open_finish_def zero_file_def
        sqlite3_uri_int64_def name0_def env_ok_def world0_def word_sless_alt
        SQLITE_OPEN_MAIN_DB_def)
  have b: "mainDbName world0 \<noteq> Some ''/whatever''" by (simp add: world0_def)
  note t1 = auroraAccess_override [of ?w "''/whatever''" env_refusing 0]
  note t2 = auroraAccess_override [of world0 "''/whatever''" env_refusing 0]
  show ?thesis using a b t1 t2 by blast
qed

section \<open>The size invariant\<close>

text \<open>
  An open that succeeds establishes \<open>0 \<le> size \<le> capacity\<close>. Write keeps it for every
  argument, sync does not touch the sizes, truncate keeps it for a new size that is not
  negative, and no method changes the capacity. The other methods do not write the handle.
\<close>

lemma auroraWrite_invariant:
  assumes inv: "0 \<le>s sz p" "sz p \<le>s szMax p"
    and res: "auroraWrite env p z iAmt iOfst w = (r, p', w')"
  shows "0 \<le>s sz p' \<and> sz p' \<le>s szMax p' \<and> szMax p' = szMax p"
proof (cases "isAurMmap p \<noteq> 0 \<and> \<not> szMax p < iOfst + scast iAmt \<and> sz p < iOfst + scast iAmt")
  case False
  then show ?thesis
    using inv res
    by (auto simp add: auroraWrite_def ext_call_def Let_def split: if_splits prod.splits)
next
  case True
  let ?e = "iOfst + scast iAmt"
  have m0: "0 \<le>s szMax p" using inv by (simp add: word_sle_eq)
  have "uint ?e \<le> uint (szMax p)" using True by (simp add: word_less_alt)
  then have le: "uint ?e \<le> sint (szMax p)" using uint_nonneg [OF m0] by simp
  then have "uint ?e < 2 ^ 63" using sint_i64_bounds [of "szMax p"] by simp
  then have e: "sint ?e = uint ?e" by (rule sint_small)
  have "0 \<le> sint ?e \<and> sint ?e \<le> sint (szMax p)" using e le by simp
  then have "0 \<le>s ?e \<and> ?e \<le>s szMax p" by (simp add: word_sle_eq)
  moreover have "sz p' = ?e \<and> szMax p' = szMax p"
    using True res
    by (auto simp add: auroraWrite_def ext_call_def Let_def split: if_splits prod.splits)
  ultimately show ?thesis by simp
qed

lemma auroraTruncate_invariant:
  assumes inv: "0 \<le>s sz p" "sz p \<le>s szMax p" and n: "0 \<le>s n"
    and res: "auroraTruncate env p n w = (r, p', w')"
  shows "0 \<le>s sz p' \<and> sz p' \<le>s szMax p' \<and> szMax p' = szMax p"
  using assms
  by (auto simp add: auroraTruncate_def ext_call_def word_sle_eq word_sless_alt
      split: if_splits)

lemma auroraSync_invariant:
  assumes res: "auroraSync env p flags w = (r, p', w')"
  shows "sz p' = sz p \<and> szMax p' = szMax p"
  using assms
  by (auto simp add: auroraSync_def ext_call_def split: if_splits)

lemma auroraOpen_invariant:
  assumes res: "auroraOpen env zName flags w = (r, p', w')" and ok: "r = SQLITE_OK"
  shows "0 \<le>s sz p' \<and> sz p' \<le>s szMax p'"
  using assms
  by (auto simp add: auroraOpen_def ext_call_def Let_def open_finish_def zero_file_def
      word_sle_eq word_sless_alt SQLITE_OK_def SQLITE_CANTOPEN_def SQLITE_INTERNAL_def
      split: if_splits)

text \<open>
  Claim C6 at a failing input: the handle of the spec's scenario satisfies
  \<open>0 \<le> size \<le> capacity\<close>; truncating it to \<open>-5\<close> returns success and leaves the size
  \<open>-5\<close>.
\<close>

theorem auroraTruncate_negative_size:
  "isAurMmap file0 \<noteq> 0 \<and> 0 \<le>s sz file0 \<and> sz file0 \<le>s szMax file0 \<and>
   auroraTruncate env_ok file0 (- 5) world0 = (SQLITE_OK, file0\<lparr>sz := - 5\<rparr>, world0) \<and>
   \<not> 0 \<le>s sz (file0\<lparr>sz := - 5\<rparr>) \<and> sint (sz (file0\<lparr>sz := - 5\<rparr>)) = - 5"
  by (simp add: auroraTruncate_def file0_def word_sle_eq word_sless_alt)

end
